theory Spec2Isabelle
  imports Complex_Main "HOL-Library.AList"
begin

section \<open>Python values and exceptions\<close>

text \<open>
  The bot (\<^verbatim>\<open>src/faceit_verification.py\<close>) is one Python module. Payloads that
  come from the statistics provider are whatever \<^verbatim>\<open>response.json()\<close> returns, so
  they are modelled as JSON values; a JSON object is a Python dict, kept as an association
  list in insertion order (the order a \<^verbatim>\<open>for\<close> loop over the dict visits its
  keys). Numbers are exact rationals: the 53-bit rounding of Python floats is not modelled.

  Every exception the module raises, or that a method of a value of the wrong shape raises,
  is a value of \<open>exn\<close>; a computation that may raise returns \<open>exn + 'a\<close>, with
  \<open>Inl\<close> the raised exception. All of them are subclasses of Python's
  \<^verbatim>\<open>Exception\<close>; signals that are only \<^verbatim>\<open>BaseException\<close>s (task
  cancellation, interpreter exit) are outside the model.
\<close>

datatype exn =
    ClientError          \<comment> \<open>aiohttp.ClientError and its subclasses\<close>
  | JSONDecodeError      \<comment> \<open>json.JSONDecodeError\<close>
  | TimeoutError         \<comment> \<open>asyncio.TimeoutError\<close>
  | NotFound             \<comment> \<open>discord.NotFound\<close>
  | Forbidden            \<comment> \<open>discord.Forbidden\<close>
  | HTTPException        \<comment> \<open>any other discord.HTTPException\<close>
  | RequestException     \<comment> \<open>requests.exceptions.RequestException and its subclasses\<close>
  | OSError
  | UnpicklingError
  | AttributeError
  | IndexError
  | KeyError
  | TypeError
  | ValueError

datatype json =
    JNull
  | JBool bool
  | JNum rat
  | JStr string
  | JList "json list"
  | JDict "(string \<times> json) list"

text \<open>Truth value of a Python object, as \<^verbatim>\<open>if x:\<close> and \<^verbatim>\<open>not x\<close> test it.\<close>

fun truthy :: "json \<Rightarrow> bool" where
  "truthy JNull = False"
| "truthy (JBool b) = b"
| "truthy (JNum q) = (q \<noteq> 0)"
| "truthy (JStr s) = (s \<noteq> [])"
| "truthy (JList xs) = (xs \<noteq> [])"
| "truthy (JDict kvs) = (kvs \<noteq> [])"

text \<open>
  \<^verbatim>\<open>x.get(key, default)\<close>: only a dict has the method; on any other value the
  attribute lookup raises \<^verbatim>\<open>AttributeError\<close>.
\<close>

fun py_get :: "json \<Rightarrow> string \<Rightarrow> json \<Rightarrow> exn + json" where
  "py_get (JDict kvs) key dflt = Inr (case map_of kvs key of None \<Rightarrow> dflt | Some v \<Rightarrow> v)"
| "py_get _ key dflt = Inl AttributeError"

text \<open>\<^verbatim>\<open>x[0]\<close>: an empty list or string raises \<^verbatim>\<open>IndexError\<close>; a JSON object has
  string keys only, so the integer key is missing; other values are not subscriptable.\<close>

fun py_index0 :: "json \<Rightarrow> exn + json" where
  "py_index0 (JList []) = Inl IndexError"
| "py_index0 (JList (x # xs)) = Inr x"
| "py_index0 (JStr []) = Inl IndexError"
| "py_index0 (JStr (c # cs)) = Inr (JStr [c])"
| "py_index0 (JDict kvs) = Inl KeyError"
| "py_index0 _ = Inl TypeError"

text \<open>\<^verbatim>\<open>for x in v\<close>: the values the loop visits. A dict yields its keys, a string its
  characters; \<^verbatim>\<open>None\<close>, booleans and numbers are not iterable.\<close>

fun py_iter :: "json \<Rightarrow> exn + json list" where
  "py_iter (JList xs) = Inr xs"
| "py_iter (JDict kvs) = Inr (map (\<lambda>(k, v). JStr k) kvs)"
| "py_iter (JStr s) = Inr (map (\<lambda>c. JStr [c]) s)"
| "py_iter _ = Inl TypeError"

text \<open>\<^verbatim>\<open>a == b\<close> on JSON values: booleans compare as the numbers 0 and 1, lists
  elementwise, dicts as sets of entries whatever the insertion order.\<close>

fun py_eq :: "json \<Rightarrow> json \<Rightarrow> bool"
  and py_eq_list :: "json list \<Rightarrow> json list \<Rightarrow> bool"
  and py_items_in :: "(string \<times> json) list \<Rightarrow> (string \<times> json) list \<Rightarrow> bool"
  and py_item_in :: "string \<Rightarrow> json \<Rightarrow> (string \<times> json) list \<Rightarrow> bool" where
  "py_eq JNull JNull = True"
| "py_eq (JBool a) (JBool b) = (a = b)"
| "py_eq (JBool a) (JNum q) = ((if a then 1 else 0) = q)"
| "py_eq (JNum q) (JBool a) = ((if a then 1 else 0) = q)"
| "py_eq (JNum p) (JNum q) = (p = q)"
| "py_eq (JStr s) (JStr t) = (s = t)"
| "py_eq (JList xs) (JList ys) = py_eq_list xs ys"
| "py_eq (JDict xs) (JDict ys) = (length xs = length ys \<and> py_items_in xs ys)"
| "py_eq _ _ = False"
| "py_eq_list [] [] = True"
| "py_eq_list (x # xs) (y # ys) = (py_eq x y \<and> py_eq_list xs ys)"
| "py_eq_list _ _ = False"
| "py_items_in [] ys = True"
| "py_items_in ((k, v) # xs) ys = (py_item_in k v ys \<and> py_items_in xs ys)"
| "py_item_in k v [] = False"
| "py_item_in k v ((k', w) # ys) = (if k = k' then py_eq v w else py_item_in k v ys)"

text \<open>\<^verbatim>\<open>key in x\<close> for a string \<open>key\<close>: key membership in a dict, element membership
  in a list, substring test in a string, \<^verbatim>\<open>TypeError\<close> otherwise.\<close>

fun is_substring :: "string \<Rightarrow> string \<Rightarrow> bool" where
  "is_substring key [] = (key = [])"
| "is_substring key (c # cs) = (take (length key) (c # cs) = key \<or> is_substring key cs)"

fun py_in :: "string \<Rightarrow> json \<Rightarrow> exn + bool" where
  "py_in key (JDict kvs) = Inr (map_of kvs key \<noteq> None)"
| "py_in key (JList xs) = Inr (list_ex (py_eq (JStr key)) xs)"
| "py_in key (JStr s) = Inr (is_substring key s)"
| "py_in key _ = Inl TypeError"

text \<open>Sequencing of computations that may raise: the first exception ends the chain.\<close>

definition bind :: "exn + 'a \<Rightarrow> ('a \<Rightarrow> exn + 'b) \<Rightarrow> exn + 'b" where
  "bind m f = (case m of Inl e \<Rightarrow> Inl e | Inr v \<Rightarrow> f v)"

subsection \<open>Integers from strings, floats to strings\<close>

definition is_space :: "char \<Rightarrow> bool" where
  "is_space c = (c \<in> set [CHR '' '', CHR 0x09, CHR 0x0A, CHR 0x0B, CHR 0x0C, CHR 0x0D])"

definition strip :: "string \<Rightarrow> string" where
  "strip s = rev (dropWhile is_space (rev (dropWhile is_space s)))"

definition digit_val :: "char \<Rightarrow> nat option" where
  "digit_val c = map_of (zip ''0123456789'' [0 ..< 10]) c"

text \<open>Decimal digits, with single underscores allowed between two digits.\<close>

fun digits_acc :: "nat \<Rightarrow> string \<Rightarrow> nat option" where
  "digits_acc n [] = Some n"
| "digits_acc n [c] = (case digit_val c of None \<Rightarrow> None | Some v \<Rightarrow> Some (10 * n + v))"
| "digits_acc n (c # d # ds) =
     (if c = CHR ''_'' then
        (case digit_val d of None \<Rightarrow> None | Some v \<Rightarrow> digits_acc (10 * n + v) ds)
      else (case digit_val c of None \<Rightarrow> None | Some v \<Rightarrow> digits_acc (10 * n + v) (d # ds)))"

fun unsigned_literal :: "string \<Rightarrow> nat option" where
  "unsigned_literal [] = None"
| "unsigned_literal (d # ds) =
     (case digit_val d of None \<Rightarrow> None | Some v \<Rightarrow> digits_acc v ds)"

fun signed_literal :: "string \<Rightarrow> int option" where
  "signed_literal [] = None"
| "signed_literal (c # cs) =
     (if c = CHR ''-'' then map_option (\<lambda>n. - int n) (unsigned_literal cs)
      else if c = CHR ''+'' then map_option int (unsigned_literal cs)
      else map_option int (unsigned_literal (c # cs)))"

text \<open>\<^verbatim>\<open>int(x)\<close>: a number is truncated towards zero, a string is parsed as a decimal
  literal (ASCII digits; surrounding ASCII white space is dropped).\<close>

fun py_int :: "json \<Rightarrow> exn + int" where
  "py_int (JBool b) = Inr (if b then 1 else 0)"
| "py_int (JNum q) = Inr (if 0 \<le> q then \<lfloor>q\<rfloor> else \<lceil>q\<rceil>)"
| "py_int (JStr s) = (case signed_literal (strip s) of None \<Rightarrow> Inl ValueError | Some i \<Rightarrow> Inr i)"
| "py_int _ = Inl TypeError"

text \<open>\<^verbatim>\<open>round(x, 1)\<close> rounds to the nearest tenth, a tie going to the even digit;
  here the result is kept as its number of tenths. \<^verbatim>\<open>str\<close> of such a float prints the
  integer part, a point and the one decimal digit. The arithmetic is exact: where the
  float product differs from the exact percentage (a tie that the float misses), and
  from 10^16 on, where Python prints an exponent form or the division overflows, the
  model is not the program.\<close>

definition round_half_even :: "rat \<Rightarrow> int" where
  "round_half_even q =
     (let f = \<lfloor>q\<rfloor>; d = q - of_int f in
      if d < 1 / 2 then f else if 1 / 2 < d then f + 1 else if even f then f else f + 1)"

definition py_round1 :: "rat \<Rightarrow> int" where
  "py_round1 x = round_half_even (x * 10)"

function str_nat :: "nat \<Rightarrow> string" where
  "str_nat n = (if n < 10 then [''0123456789'' ! n]
                else str_nat (n div 10) @ [''0123456789'' ! (n mod 10)])"
  by pat_completeness auto
termination
  by (relation "measure id") auto

definition str_tenths :: "bool \<Rightarrow> int \<Rightarrow> string" where
  "str_tenths negative t =
     (if negative then ''-'' else '''') @ str_nat (nat \<bar>t\<bar> div 10) @ ''.'' @ str_nat (nat \<bar>t\<bar> mod 10)"

section \<open>Win rate\<close>

text \<open>
  \<^verbatim>\<open>calculate_win_rate(wins, total_matches)\<close> (lines 177-180). The arguments are
  the provider's lifetime counters (strings as the stats command passes them, or numbers).
  The quotient of two Python ints is a float whose sign bit is set exactly when one of the
  two is negative.
\<close>

definition calculate_win_rate :: "json \<Rightarrow> json \<Rightarrow> exn + string" where
  "calculate_win_rate wins total_matches =
     (if \<not> truthy total_matches \<or> \<not> truthy wins then Inr ''0''
      else bind (py_int total_matches) (\<lambda>m.
        if m = 0 then Inr ''0''
        else bind (py_int wins) (\<lambda>w.
          Inr (str_tenths ((w < 0) \<noteq> (m < 0)) (py_round1 (of_int w / of_int m * 100))))))"

section \<open>Exception handlers and log lines\<close>

text \<open>
  The classes the module's \<^verbatim>\<open>except\<close> clauses name, and the instance test that
  picks a clause. A \<^verbatim>\<open>try\<close> statement runs its handlers in the order written; an
  exception no clause matches propagates to the caller.
\<close>

datatype exn_class =
    Exception_class
  | ClientError_class
  | JSONDecodeError_class
  | NotFound_class
  | Forbidden_class
  | RequestException_class

fun isinstance :: "exn \<Rightarrow> exn_class \<Rightarrow> bool" where
  "isinstance e Exception_class = True"
| "isinstance e ClientError_class = (e = ClientError)"
| "isinstance e JSONDecodeError_class = (e = JSONDecodeError)"
| "isinstance e NotFound_class = (e = NotFound)"
| "isinstance e Forbidden_class = (e = Forbidden)"
| "isinstance e RequestException_class = (e = RequestException)"

fun try_except :: "exn + 'a \<Rightarrow> (exn_class \<times> (exn \<Rightarrow> exn + 'a)) list \<Rightarrow> exn + 'a" where
  "try_except (Inr v) handlers = Inr v"
| "try_except (Inl e) [] = Inl e"
| "try_except (Inl e) ((cls, handler) # handlers) =
     (if isinstance e cls then handler e else try_except (Inl e) handlers)"

type_synonym championship_id = string
type_synonym message_id = nat
type_synonym user_id = int

text \<open>The lines the module prints, one constructor per \<^verbatim>\<open>print\<close> call.\<close>

datatype log_line =
    Error_loading_announced exn            \<comment> \<open>line 89\<close>
  | Session_created                        \<comment> \<open>line 117\<close>
  | Rate_limit_exceeded                    \<comment> \<open>line 131\<close>
  | Network_error exn                      \<comment> \<open>line 138\<close>
  | JSON_decode_error exn                  \<comment> \<open>line 141\<close>
  | Unexpected_api_error exn               \<comment> \<open>line 144\<close>
  | Failed_to_fetch_championships          \<comment> \<open>line 299\<close>
  | Updated_to_finished championship_id    \<comment> \<open>line 318\<close>
  | Message_not_found championship_id      \<comment> \<open>line 323\<close>
  | Missing_permissions_edit               \<comment> \<open>line 327\<close>
  | Unexpected_update_error exn            \<comment> \<open>line 329\<close>
  | Announced_new championship_id          \<comment> \<open>line 339\<close>
  | Missing_permissions_send               \<comment> \<open>line 341\<close>
  | Unexpected_announce_error exn          \<comment> \<open>line 343\<close>
  | Check_error exn                        \<comment> \<open>line 346\<close>
  | Oauth_request_error exn                \<comment> \<open>line 478\<close>
  | Oauth_unexpected_error exn             \<comment> \<open>line 481\<close>

section \<open>Announcement store: loading\<close>

text \<open>
  The store maps a tournament identifier to the identifier of its announcement message;
  the value is \<^verbatim>\<open>None\<close> for an entry upgraded from the legacy format (a plain set
  of identifiers). \<^verbatim>\<open>load_announced_tournaments\<close> (lines 80-91) reads the pickle
  file: the file may be missing, opening or unpickling it may raise, and the object it
  holds may be a dict, an iterable of identifiers, or something the comprehension on
  line 87 cannot walk (\<^verbatim>\<open>TypeError\<close>).
\<close>

type_synonym store = "championship_id \<rightharpoonup> message_id option"






section \<open>The API client\<close>

text \<open>
  \<^verbatim>\<open>FaceitAPI\<close> (lines 103-172). Time is a real number of seconds on one clock
  \<open>now\<close>, read by the event loop's \<^verbatim>\<open>time()\<close> and by \<^verbatim>\<open>datetime.now()\<close>
  alike; \<^verbatim>\<open>asyncio.sleep(d)\<close> advances it by \<open>d\<close> and a request by the latency the
  network gives it. A request is named by the endpoint it addresses (the method is
  always GET). The provider's reply is either an exception raised by the transport, or a
  status code with the result of decoding the body; a JSON \<^verbatim>\<open>null\<close> is Python's
  \<^verbatim>\<open>None\<close>, the absent result.
\<close>

datatype request =
    Get_player_by_id json
  | Get_player_by_nickname string
  | Get_player_stats json
  | Get_match_history json nat
  | Get_championships string
  | Get_championship_by_id string
  | Get_championship_standings string

datatype http_reply =
    Request_raises exn
  | Response nat "exn + json"

datatype session = No_session | Closed_session | Open_session

record faceit_api =
  session :: session
  last_api_call :: real
  rate_limit_delay :: real

record network =
  http :: "request \<Rightarrow> http_reply"
  latency :: "request \<Rightarrow> real"

record world =
  now :: real
  api :: faceit_api
  requests :: "request list"
  printed :: "log_line list"
  user_cooldowns :: "user_id \<Rightarrow> real"

definition ensure_session :: "world \<Rightarrow> world" where
  "ensure_session w =
     (if session (api w) = Open_session then w
      else w\<lparr>printed := printed w @ [Session_created],
             api := (api w)\<lparr>session := Open_session\<rparr>\<rparr>)"

definition throttle :: "world \<Rightarrow> world" where
  "throttle w =
     (let current_time = now w;
          time_since_last_call = current_time - last_api_call (api w);
          w' = (if time_since_last_call < rate_limit_delay (api w)
                then w\<lparr>now := now w + (rate_limit_delay (api w) - time_since_last_call)\<rparr>
                else w)
      in w'\<lparr>api := (api w')\<lparr>last_api_call := now w'\<rparr>\<rparr>)"

text \<open>The body of the \<^verbatim>\<open>try\<close> (lines 129-136): the lines it prints and its result.\<close>

definition send_request :: "network \<Rightarrow> request \<Rightarrow> exn + (log_line list \<times> json)" where
  "send_request net req =
     (case http net req of
        Request_raises e \<Rightarrow> Inl e
      | Response status_code decoded \<Rightarrow>
          if status_code = 429 then Inr ([Rate_limit_exceeded], JNull)
          else if 400 \<le> status_code then Inl ClientError
          else bind decoded (\<lambda>j. Inr ([], j)))"

definition rate_limited_request :: "network \<Rightarrow> world \<Rightarrow> request \<Rightarrow> world \<times> (exn + json)" where
  "rate_limited_request net w req =
     (let w1 = throttle (ensure_session w);
          w2 = w1\<lparr>requests := requests w1 @ [req], now := now w1 + latency net req\<rparr>
      in case try_except (send_request net req)
                [(ClientError_class, \<lambda>e. Inr ([Network_error e], JNull)),
                 (JSONDecodeError_class, \<lambda>e. Inr ([JSON_decode_error e], JNull)),
                 (Exception_class, \<lambda>e. Inr ([Unexpected_api_error e], JNull))] of
           Inl e \<Rightarrow> (w2, Inl e)
         | Inr (lines, result) \<Rightarrow> (w2\<lparr>printed := printed w2 @ lines\<rparr>, Inr result))"

definition get_player_data :: "network \<Rightarrow> world \<Rightarrow> string \<Rightarrow> json \<Rightarrow> world \<times> (exn + json)" where
  "get_player_data net w username player_id =
     (if truthy player_id then rate_limited_request net w (Get_player_by_id player_id)
      else if username \<noteq> [] then rate_limited_request net w (Get_player_by_nickname username)
      else (w, Inr JNull))"

definition get_player_stats :: "network \<Rightarrow> world \<Rightarrow> json \<Rightarrow> world \<times> (exn + json)" where
  "get_player_stats net w player_id = rate_limited_request net w (Get_player_stats player_id)"

definition get_match_history :: "network \<Rightarrow> world \<Rightarrow> json \<Rightarrow> world \<times> (exn + json)" where
  "get_match_history net w player_id = rate_limited_request net w (Get_match_history player_id 5)"

section \<open>Tournament sync loop\<close>

text \<open>
  A listed tournament is a JSON object: its identifier, a string in the provider's
  schema, and its other fields as the payload has them, each possibly missing,
  \<^verbatim>\<open>null\<close> or of another type than the code expects. \<open>champ_get\<close> is
  \<^verbatim>\<open>championship.get(key, default)\<close>; \<open>status\<close> is the value the loop reads on
  line 304. The standings are the raw payload of the results endpoint, which
  \<^verbatim>\<open>create_finished_embed\<close> walks itself.
\<close>

record championship =
  championship_id :: championship_id
  payload :: "(string \<times> json) list"

definition champ_get :: "championship \<Rightarrow> string \<Rightarrow> json \<Rightarrow> json" where
  "champ_get c key dflt =
     (if key = ''championship_id'' then JStr (championship_id c)
      else case map_of (payload c) key of None \<Rightarrow> dflt | Some v \<Rightarrow> v)"

definition status :: "championship \<Rightarrow> json" where
  "status c = champ_get c ''status'' (JStr ''not_started'')"

text \<open>
  An embed is kept as the data its text is rendered from; what the model keeps of the
  rendering is every step of it that can raise. The string methods
  \<^verbatim>\<open>replace\<close>, \<^verbatim>\<open>upper\<close> and \<^verbatim>\<open>capitalize\<close> exist on a string only.
  \<^verbatim>\<open>convert_timestamp_to_datetime\<close> (lines 189-192) divides the timestamp by 1000 and
  builds a date from it; dates run from year 1 to year 9999 (far beyond them the
  platform raises \<^verbatim>\<open>OverflowError\<close> or \<^verbatim>\<open>OSError\<close> instead of
  \<^verbatim>\<open>ValueError\<close>). The final embed's standings field is the leaderboard (rank, team
  name, points), the placeholder "No standings available.", or missing.
\<close>

fun py_str_method :: "json \<Rightarrow> exn + string" where
  "py_str_method (JStr s) = Inr s"
| "py_str_method _ = Inl AttributeError"

fun py_div_1000 :: "json \<Rightarrow> exn + rat" where
  "py_div_1000 (JNum q) = Inr (q / 1000)"
| "py_div_1000 (JBool b) = Inr ((if b then 1 else 0) / 1000)"
| "py_div_1000 _ = Inl TypeError"

definition fromtimestamp :: "rat \<Rightarrow> exn + rat" where
  "fromtimestamp x =
     (if - 62135596800 \<le> x \<and> x < 253402300800 then Inr x else Inl ValueError)"

definition convert_timestamp_to_datetime :: "json \<Rightarrow> exn + rat option" where
  "convert_timestamp_to_datetime ts =
     (if \<not> truthy ts \<or> py_eq ts (JNum 0) then Inr None
      else bind (py_div_1000 ts) (\<lambda>x. bind (fromtimestamp x) (\<lambda>d. Inr (Some d))))"

text \<open>\<^verbatim>\<open>format_championship_url\<close> (lines 182-184): the name with its spaces
  replaced; the text of the URL is not kept.\<close>

definition format_championship_url :: "json \<Rightarrow> json \<Rightarrow> exn + string" where
  "format_championship_url cid championship_name = py_str_method championship_name"

datatype standings_field =
    Leaderboard "(nat \<times> json \<times> json) list"
  | No_standings_available
  | No_standings_field

datatype embed =
    Championship_embed championship
  | Finished_embed championship standings_field

text \<open>\<^verbatim>\<open>create_championship_embed\<close> (lines 194-243), in the order of its statements.\<close>

definition create_championship_embed :: "championship \<Rightarrow> exn + embed" where
  "create_championship_embed c =
     bind (format_championship_url (champ_get c ''championship_id'' (JStr ''''))
             (champ_get c ''name'' (JStr ''N/A''))) (\<lambda>url.
     bind (py_get (champ_get c ''prize_pool'' (JDict [])) ''prize'' (JStr ''N/A'')) (\<lambda>prize_pool.
     bind (py_get (champ_get c ''prize_pool'' (JDict [])) ''currency'' (JStr '''')) (\<lambda>currency.
     bind (convert_timestamp_to_datetime (champ_get c ''starts_at'' (JNum 0))) (\<lambda>start_time_utc.
     bind (convert_timestamp_to_datetime (champ_get c ''ends_at'' (JNum 0))) (\<lambda>end_time_utc.
     bind (py_get (champ_get c ''organizer'' (JDict [])) ''name'' (JStr ''N/A'')) (\<lambda>organizer_name.
     bind (py_str_method (champ_get c ''region'' (JStr ''N/A''))) (\<lambda>region.
     bind (py_str_method (champ_get c ''status'' (JStr ''N/A''))) (\<lambda>status_text.
     Inr (Championship_embed c)))))))))"

text \<open>The \<^verbatim>\<open>for i, team in enumerate(standings, 1)\<close> loop (lines 262-265).\<close>

fun leaderboard_text :: "nat \<Rightarrow> json list \<Rightarrow> exn + (nat \<times> json \<times> json) list" where
  "leaderboard_text i [] = Inr []"
| "leaderboard_text i (team # teams) =
     bind (py_get team ''leaderboard_name'' (JStr ''N/A'')) (\<lambda>team_name.
     bind (py_get team ''points'' (JStr ''N/A'')) (\<lambda>points.
     bind (leaderboard_text (Suc i) teams) (\<lambda>rest.
     Inr ((i, team_name, points) # rest))))"

text \<open>\<^verbatim>\<open>create_finished_embed\<close> (lines 245-273).\<close>

definition create_finished_embed :: "championship \<Rightarrow> json \<Rightarrow> exn + embed" where
  "create_finished_embed c standings =
     bind (format_championship_url (champ_get c ''championship_id'' (JStr ''''))
             (champ_get c ''name'' (JStr ''N/A''))) (\<lambda>url.
     bind (py_get (champ_get c ''organizer'' (JDict [])) ''name'' (JStr ''N/A'')) (\<lambda>organizer_name.
     bind (py_str_method (champ_get c ''status'' (JStr ''N/A''))) (\<lambda>status_text.
     if truthy standings then
       bind (py_iter standings) (\<lambda>teams.
       bind (leaderboard_text 1 teams) (\<lambda>lines.
       Inr (Finished_embed c (if lines \<noteq> [] then Leaderboard lines else No_standings_field))))
     else Inr (Finished_embed c No_standings_available))))"

text \<open>
  What one cycle sees of its collaborators: the listing the API client returned
  (\<open>None\<close> when the client returned \<^verbatim>\<open>None\<close> or a payload without
  \<^verbatim>\<open>'items'\<close>) and the standings it returned, whether the announcement channel is
  found, the outcome of each chat-platform call (\<open>None\<close>: no exception), and whether
  the store file can be written with a given content.
\<close>

record env =
  get_championships :: "championship list option"
  get_championship_standings :: "championship_id \<Rightarrow> json"
  get_channel :: bool
  fetch_message :: "message_id option \<Rightarrow> exn option"
  edit_message :: "message_id option \<Rightarrow> embed \<Rightarrow> exn option"
  send_message :: "embed \<Rightarrow> exn + message_id"
  can_write :: "store \<Rightarrow> bool"

datatype event =
    Sent championship_id embed message_id
  | Edited championship_id "message_id option" embed
  | Printed log_line

text \<open>The pickle file holds the store last written to it; after a write that raised,
  what it holds is not known (the old content, or a truncated file).\<close>

datatype file_state = File_holds store | Unknown_content

record sync_state =
  announced_tournaments :: store
  pickle_file :: file_state
  events :: "event list"

definition emit :: "event \<Rightarrow> sync_state \<Rightarrow> sync_state" where
  "emit ev s = s\<lparr>events := events s @ [ev]\<rparr>"

text \<open>\<^verbatim>\<open>save_announced_tournaments\<close> (lines 93-96); the state it leaves and the
  exception it raises, if any.\<close>

definition save_announced_tournaments :: "env \<Rightarrow> sync_state \<Rightarrow> sync_state \<times> exn option" where
  "save_announced_tournaments en s =
     (if can_write en (announced_tournaments s)
      then (s\<lparr>pickle_file := File_holds (announced_tournaments s)\<rparr>, None)
      else (s\<lparr>pickle_file := Unknown_content\<rparr>, Some OSError))"

definition pop :: "championship_id \<Rightarrow> sync_state \<Rightarrow> sync_state" where
  "pop cid s = s\<lparr>announced_tournaments := (announced_tournaments s)(cid := None)\<rparr>"

text \<open>The body of the \<^verbatim>\<open>try\<close> of the update branch (lines 312-320): the state it
  leaves and the exception it raises, if any.\<close>

definition update_message ::
  "env \<Rightarrow> championship \<Rightarrow> message_id option \<Rightarrow> sync_state \<Rightarrow> sync_state \<times> exn option" where
  "update_message en c message_id s =
     (let cid = championship_id c in
      case fetch_message en message_id of
        Some e \<Rightarrow> (s, Some e)
      | None \<Rightarrow>
          if py_eq (status c) (JStr ''finished'') \<or> py_eq (status c) (JStr ''cancelled'') then
            (case create_finished_embed c (get_championship_standings en cid) of
               Inl e \<Rightarrow> (s, Some e)
             | Inr final_embed \<Rightarrow>
                 (case edit_message en message_id final_embed of
                    Some e \<Rightarrow> (s, Some e)
                  | None \<Rightarrow>
                      save_announced_tournaments en
                        (pop cid
                          (emit (Printed (Updated_to_finished cid))
                            (emit (Edited cid message_id final_embed) s)))))
          else (s, None))"

text \<open>Its three \<^verbatim>\<open>except\<close> clauses (lines 322-329). The save on line 325 is outside
  any \<^verbatim>\<open>try\<close> of the loop body: what it raises leaves the body.\<close>

definition update_failed ::
  "env \<Rightarrow> championship_id \<Rightarrow> exn \<Rightarrow> sync_state \<Rightarrow> sync_state \<times> exn option" where
  "update_failed en cid e s =
     (if isinstance e NotFound_class then
        save_announced_tournaments en (pop cid (emit (Printed (Message_not_found cid)) s))
      else if isinstance e Forbidden_class then
        (emit (Printed Missing_permissions_edit) s, None)
      else (emit (Printed (Unexpected_update_error e)) s, None))"

text \<open>The body of the \<^verbatim>\<open>try\<close> of the announce branch (lines 336-339) and its two
  \<^verbatim>\<open>except\<close> clauses (lines 340-343).\<close>

definition publish ::
  "env \<Rightarrow> championship_id \<Rightarrow> embed \<Rightarrow> sync_state \<Rightarrow> sync_state \<times> exn option" where
  "publish en cid e s =
     (case send_message en e of
        Inl ex \<Rightarrow> (s, Some ex)
      | Inr mid \<Rightarrow>
          (case save_announced_tournaments en
                  ((emit (Sent cid e mid) s)
                     \<lparr>announced_tournaments := (announced_tournaments s)(cid \<mapsto> Some mid)\<rparr>) of
             (s', Some ex) \<Rightarrow> (s', Some ex)
           | (s', None) \<Rightarrow> (emit (Printed (Announced_new cid)) s', None)))"

definition announce_failed :: "exn \<Rightarrow> sync_state \<Rightarrow> sync_state" where
  "announce_failed e s =
     (if isinstance e Forbidden_class then emit (Printed Missing_permissions_send) s
      else emit (Printed (Unexpected_announce_error e)) s)"

text \<open>The body of the loop over the listing (lines 303-343): the state it leaves, and
  the exception that leaves it for the handler on line 345, if any. The embed of line
  334 is rendered before the \<^verbatim>\<open>try\<close> on line 335.\<close>

definition process_championship ::
  "env \<Rightarrow> sync_state \<Rightarrow> championship \<Rightarrow> sync_state \<times> exn option" where
  "process_championship en s c =
     (let cid = championship_id c in
      case announced_tournaments s cid of
        Some message_id \<Rightarrow>
          if get_channel en then
            (case update_message en c message_id s of
               (s', None) \<Rightarrow> (s', None)
             | (s', Some e) \<Rightarrow> update_failed en cid e s')
          else (s, None)
      | None \<Rightarrow>
          if py_eq (status c) (JStr ''upcoming'') \<or> py_eq (status c) (JStr ''in_progress'') then
            if get_channel en then
              (case create_championship_embed c of
                 Inl e \<Rightarrow> (s, Some e)
               | Inr e \<Rightarrow>
                   (case publish en cid e s of
                      (s', None) \<Rightarrow> (s', None)
                    | (s', Some ex) \<Rightarrow> (announce_failed ex s', None)))
            else (s, None)
          else (s, None))"

text \<open>The loop: the first exception that leaves the body ends it.\<close>

fun run_items :: "env \<Rightarrow> sync_state \<Rightarrow> championship list \<Rightarrow> sync_state \<times> exn option" where
  "run_items en s [] = (s, None)"
| "run_items en s (c # cs) =
     (case process_championship en s c of
        (s', Some e) \<Rightarrow> (s', Some e)
      | (s', None) \<Rightarrow> run_items en s' cs)"

text \<open>The handler on lines 345-346.\<close>

definition finish :: "sync_state \<times> exn option \<Rightarrow> sync_state" where
  "finish r = (case r of (s, None) \<Rightarrow> s | (s, Some e) \<Rightarrow> emit (Printed (Check_error e)) s)"

text \<open>\<^verbatim>\<open>check_championships\<close> (lines 290-346), one cycle.\<close>

definition check_championships :: "env \<Rightarrow> sync_state \<Rightarrow> sync_state" where
  "check_championships en s =
     (case get_championships en of
        None \<Rightarrow> emit (Printed Failed_to_fetch_championships) s
      | Some items \<Rightarrow> finish (run_items en s items))"

text \<open>The events a cycle adds to the trace.\<close>

definition cycle_events :: "env \<Rightarrow> sync_state \<Rightarrow> event list" where
  "cycle_events en s = drop (length (events s)) (events (check_championships en s))"



section \<open>OAuth callback\<close>

text \<open>
  \<^verbatim>\<open>verification_states\<close> is a dict from the user's identifier to the token issued
  by \<^verbatim>\<open>/login\<close>, kept in insertion order (the order the loop on line 431 visits).
  The two server-to-server calls are the network's: the token exchange gives the decoded
  token payload for an authorization code, the profile fetch the decoded profile for an
  access token, or the exception \<^verbatim>\<open>requests\<close> raised.
\<close>

record verification =
  state :: string
  timestamp :: real

type_synonym verification_states = "(user_id \<times> verification) list"


datatype response_body =
    Verification_failed
  | Verification_successful json
  | Error_during_verification
  | Unexpected_error_occurred

record callback_result =
  states :: verification_states
  status_code :: nat
  body :: response_body
  handoff :: "(user_id \<times> json \<times> json) option"
  oauth_printed :: "log_line list"






section \<open>Stats command\<close>

text \<open>
  The glyph of one match of the history (lines 390-397, the body of the loop):
  \<open>None\<close> when the match adds no glyph. The variable \<^verbatim>\<open>player_team_id\<close> holds the
  \<^verbatim>\<open>player_id\<close> of the first player listed for faction1.
\<close>

datatype glyph = Win_glyph | Loss_glyph

definition match_glyph :: "json \<Rightarrow> exn + glyph option" where
  "match_glyph match =
     bind (py_get match ''teams'' (JDict [])) (\<lambda>teams.
     bind (py_get teams ''faction1'' (JDict [])) (\<lambda>faction1.
     bind (py_get faction1 ''players'' (JList [])) (\<lambda>players.
     bind (py_index0 players) (\<lambda>first_player.
     bind (py_get first_player ''player_id'' JNull) (\<lambda>player_team_id.
     bind (py_get match ''results'' (JDict [])) (\<lambda>results.
     bind (py_get results ''winner_id'' JNull) (\<lambda>winning_team_id.
     if truthy winning_team_id \<and> truthy player_team_id then
       bind (py_get match ''teams'' (JDict [])) (\<lambda>teams'.
       bind (py_get teams' ''faction1'' (JDict [])) (\<lambda>faction1'.
       bind (py_get faction1' ''faction_id'' JNull) (\<lambda>faction_id.
       Inr (Some (if py_eq winning_team_id faction_id then Win_glyph else Loss_glyph)))))
     else Inr None)))))))"

fun recent_result_icons :: "json list \<Rightarrow> exn + glyph list" where
  "recent_result_icons [] = Inr []"
| "recent_result_icons (match # rest) =
     bind (match_glyph match) (\<lambda>g.
     bind (recent_result_icons rest) (\<lambda>gs.
     Inr (case g of None \<Rightarrow> gs | Some x \<Rightarrow> x # gs)))"

text \<open>
  The player's own side of a match, as the comment on line 389 ("Check if the player won
  the match") and the specification word it: the identifier of the faction whose player
  list names the player. It is not part of the program; the program's glyph is compared
  with it.
\<close>

definition lists_player :: "json \<Rightarrow> json \<Rightarrow> bool" where
  "lists_player player_id faction =
     (case py_get faction ''players'' (JList []) of
        Inr (JList ps) \<Rightarrow> list_ex (\<lambda>p. py_get p ''player_id'' JNull = Inr player_id) ps
      | _ \<Rightarrow> False)"

definition own_faction_id :: "json \<Rightarrow> json \<Rightarrow> json option" where
  "own_faction_id player_id match =
     (case py_get match ''teams'' (JDict []) of
        Inr (JDict factions) \<Rightarrow>
          (case filter (\<lambda>(name, faction). lists_player player_id faction) factions of
             [] \<Rightarrow> None
           | (name, faction) # _ \<Rightarrow>
               (case py_get faction ''faction_id'' JNull of Inr i \<Rightarrow> Some i | Inl e \<Rightarrow> None))
      | _ \<Rightarrow> None)"

text \<open>
  \<^verbatim>\<open>FACEIT_LEVELS.get(level)\<close>: the table has the keys 1 to 10 (a float or boolean equal
  to a key finds it too); the image is kept as the key that was found. A list or a dict
  is unhashable.
\<close>

fun faceit_level_image :: "json \<Rightarrow> exn + nat option" where
  "faceit_level_image (JList xs) = Inl TypeError"
| "faceit_level_image (JDict kvs) = Inl TypeError"
| "faceit_level_image (JNum q) =
     Inr (if q \<in> \<int> \<and> 1 \<le> q \<and> q \<le> 10 then Some (nat \<lfloor>q\<rfloor>) else None)"
| "faceit_level_image (JBool b) = Inr (if b then Some 1 else None)"
| "faceit_level_image _ = Inr None"

text \<open>\<^verbatim>\<open>url.replace('{lang}', 'en')\<close>; only a string has the method.\<close>

fun replace_lang :: "string \<Rightarrow> string" where
  "replace_lang [] = []"
| "replace_lang (c # cs) =
     (if take 6 (c # cs) = ''{lang}'' then ''en'' @ replace_lang (drop 5 cs)
      else c # replace_lang cs)"

fun py_replace_lang :: "json \<Rightarrow> exn + string" where
  "py_replace_lang (JStr s) = Inr (replace_lang s)"
| "py_replace_lang _ = Inl AttributeError"

record stats_embed =
  embed_username :: string
  embed_url :: string
  level_image :: "nat option"
  skill_level :: json
  wins :: json
  matches :: json
  win_rate :: string
  kd_ratio :: json
  headshot_percentage :: json
  recent_matches :: "glyph list"

datatype stats_response =
    Cooldown_message real          \<comment> \<open>ephemeral; the seconds left, before its one-decimal rendering\<close>
  | Player_not_found               \<comment> \<open>ephemeral\<close>
  | No_cs2_stats string            \<comment> \<open>ephemeral\<close>
  | Stats stats_embed

definition RATE_LIMIT_COOLDOWN :: real where
  "RATE_LIMIT_COOLDOWN = 5"

text \<open>Lines 373-417: from the three payloads to the embed, or \<open>None\<close> for the
  "no CS2 stats" reply.\<close>

definition render_stats :: "string \<Rightarrow> json \<Rightarrow> json \<Rightarrow> json \<Rightarrow> exn + stats_embed option" where
  "render_stats username player_data player_stats player_history =
     bind (if player_stats = JNull then Inr False else py_in ''lifetime'' player_stats) (\<lambda>has_lifetime.
     if \<not> has_lifetime then Inr None
     else
       bind (py_get player_stats ''lifetime'' (JDict [])) (\<lambda>lifetime_stats.
       bind (py_get lifetime_stats ''Wins'' (JStr ''0'')) (\<lambda>wins.
       bind (py_get lifetime_stats ''Matches'' (JStr ''0'')) (\<lambda>matches.
       bind (py_get lifetime_stats ''Average K/D Ratio'' (JStr ''0.0'')) (\<lambda>kd_ratio.
       bind (py_get lifetime_stats ''Average Headshots %'' (JStr ''0%'')) (\<lambda>headshot_percentage.
       bind (calculate_win_rate wins matches) (\<lambda>win_rate.
       bind (py_get player_history ''items'' (JList [])) (\<lambda>recent_results.
       bind (py_iter recent_results) (\<lambda>history.
       bind (recent_result_icons history) (\<lambda>icons.
       bind (py_get player_data ''faceit_url'' JNull) (\<lambda>faceit_url.
       bind (py_replace_lang faceit_url) (\<lambda>url.
       bind (py_get player_data ''games'' (JDict [])) (\<lambda>games.
       bind (py_get games ''cs2'' (JDict [])) (\<lambda>cs2.
       bind (py_get cs2 ''skill_level'' (JNum 0)) (\<lambda>level.
       bind (faceit_level_image level) (\<lambda>image.
       Inr (Some \<lparr>embed_username = username, embed_url = url, level_image = image,
                  skill_level = level, wins = wins, matches = matches, win_rate = win_rate,
                  kd_ratio = kd_ratio, headshot_percentage = headshot_percentage,
                  recent_matches = icons\<rparr>)))))))))))))))))"

text \<open>
  \<^verbatim>\<open>stats\<close> (lines 355-420) for the user \<open>author\<close>. \<^verbatim>\<open>user_cooldowns\<close> is a
  \<^verbatim>\<open>defaultdict(float)\<close>: a user never served reads as 0. The result is \<open>Inl\<close> when
  an exception ends the command before it answers.
\<close>

definition stats :: "network \<Rightarrow> world \<Rightarrow> user_id \<Rightarrow> string \<Rightarrow> world \<times> (exn + stats_response)" where
  "stats net w author username =
     (let current_time = now w in
      if current_time - user_cooldowns w author < RATE_LIMIT_COOLDOWN then
        (w, Inr (Cooldown_message
                   (RATE_LIMIT_COOLDOWN - (current_time - user_cooldowns w author))))
      else
        case get_player_data net w username JNull of
          (w1, Inl e) \<Rightarrow> (w1, Inl e)
        | (w1, Inr player_data) \<Rightarrow>
            if \<not> truthy player_data then (w1, Inr Player_not_found)
            else
              (case py_get player_data ''player_id'' JNull of
                 Inl e \<Rightarrow> (w1, Inl e)
               | Inr player_id \<Rightarrow>
                   (case get_player_stats net w1 player_id of
                      (w2, Inl e) \<Rightarrow> (w2, Inl e)
                    | (w2, Inr player_stats) \<Rightarrow>
                        (case get_match_history net w2 player_id of
                           (w3, Inl e) \<Rightarrow> (w3, Inl e)
                         | (w3, Inr player_history) \<Rightarrow>
                             (case render_stats username player_data player_stats
                                     player_history of
                                Inl e \<Rightarrow> (w3, Inl e)
                              | Inr None \<Rightarrow> (w3, Inr (No_cs2_stats username))
                              | Inr (Some e) \<Rightarrow>
                                  (w3\<lparr>user_cooldowns :=
                                        (user_cooldowns w3)(author := current_time)\<rparr>,
                                   Inr (Stats e)))))))"

section \<open>Auxiliary notions and example inputs\<close>






definition fresh_world :: world where
  "fresh_world =
     \<lparr>now = 100,
      api = \<lparr>session = No_session, last_api_call = 0, rate_limit_delay = 3 / 2\<rparr>,
      requests = [], printed = [], user_cooldowns = (\<lambda>u. 0)\<rparr>"

definition example_championship :: "string \<Rightarrow> championship" where
  "example_championship st = \<lparr>championship_id = ''t1'', payload = [(''status'', JStr st)]\<rparr>"

definition example_sync_state :: sync_state where
  "example_sync_state =
     \<lparr>announced_tournaments = [''t1'' \<mapsto> Some 7], pickle_file = Unknown_content, events = []\<rparr>"

definition example_env ::
  "championship list \<Rightarrow> exn option \<Rightarrow> exn option \<Rightarrow> exn + message_id \<Rightarrow> env" where
  "example_env items fetched edited sent =
     \<lparr>get_championships = Some items, get_championship_standings = (\<lambda>cid. JNull),
      get_channel = True, fetch_message = (\<lambda>m. fetched), edit_message = (\<lambda>m e. edited),
      send_message = (\<lambda>e. sent), can_write = (\<lambda>st. True)\<rparr>"

definition regionless :: "championship_id \<Rightarrow> championship" where
  "regionless cid =
     \<lparr>championship_id = cid, payload = [(''status'', JStr ''upcoming''), (''region'', JNull)]\<rparr>"

definition unwritable :: "env \<Rightarrow> env" where
  "unwritable en = en\<lparr>can_write := (\<lambda>st. False)\<rparr>"

definition without_channel :: "env \<Rightarrow> env" where
  "without_channel en = en\<lparr>get_channel := False\<rparr>"

definition with_standings :: "json \<Rightarrow> env \<Rightarrow> env" where
  "with_standings standings en = en\<lparr>get_championship_standings := (\<lambda>cid. standings)\<rparr>"

definition example_standings :: json where
  "example_standings =
     JDict [(''items'', JList [JDict [(''leaderboard_name'', JStr ''team''),
                                      (''points'', JNum 3)]]),
            (''start'', JNum 0), (''end'', JNum 1)]"

definition example_match :: json where
  "example_match =
     JDict [(''teams'',
             JDict [(''faction1'',
                     JDict [(''faction_id'', JStr ''f1''),
                            (''players'', JList [JDict [(''player_id'', JStr ''p1'')]])]),
                    (''faction2'',
                     JDict [(''faction_id'', JStr ''f2''),
                            (''players'', JList [JDict [(''player_id'', JStr ''p2'')]])])]),
            (''results'', JDict [(''winner_id'', JStr ''f2'')])]"

definition match_without_teams :: json where
  "match_without_teams = JDict [(''results'', JDict [(''winner_id'', JStr ''f1'')])]"

definition match_without_winner :: json where
  "match_without_winner =
     JDict [(''teams'',
             JDict [(''faction1'',
                     JDict [(''faction_id'', JStr ''f1''),
                            (''players'', JList [JDict [(''player_id'', JStr ''p1'')]])])])]"

definition network_with_history :: "json list \<Rightarrow> network" where
  "network_with_history history =
     \<lparr>http = (\<lambda>req. case req of
                Get_player_by_nickname n \<Rightarrow>
                  Response 200 (Inr (JDict [(''player_id'', JStr ''p2''),
                                            (''faceit_url'', JStr ''u'')]))
              | Get_player_stats p \<Rightarrow>
                  Response 200 (Inr (JDict [(''lifetime'', JDict [(''Wins'', JNum 5),
                                                                   (''Matches'', JNum 20)])]))
              | Get_match_history p n \<Rightarrow>
                  Response 200 (Inr (JDict [(''items'', JList history)]))
              | _ \<Rightarrow> Response 404 (Inl JSONDecodeError)),
      latency = (\<lambda>req. 0)\<rparr>"



section \<open>Properties\<close>

text \<open>
  C9. \<^verbatim>\<open>calculate_win_rate\<close> returns the string "0" for 0 wins out of 0 matches,
  and the string "25.0" for 5 wins out of 20 matches (the percentage rounded to one
  decimal place).
\<close>

theorem calculate_win_rate_examples:
  "calculate_win_rate (JNum 0) (JNum 0) = Inr ''0''
   \<and> calculate_win_rate (JNum 5) (JNum 20) = Inr ''25.0''"
  by code_simp

theorem calculate_win_rate_examples_witness:
  "calculate_win_rate (JNum 5) (JNum 20) = Inr ''25.0''"
  using calculate_win_rate_examples by simp



lemma printed_throttle [simp]: "printed (throttle w) = printed w"
  by (simp add: throttle_def Let_def)













subsection \<open>The sync loop, one tournament at a time\<close>

lemmas sync_defs = process_championship_def update_message_def update_failed_def publish_def
  announce_failed_def emit_def save_announced_tournaments_def pop_def Let_def




















lemmas example_defs = check_championships_def cycle_events_def finish_def example_env_def
  example_championship_def example_sync_state_def regionless_def unwritable_def
  without_channel_def with_standings_def example_standings_def sync_defs status_def
  champ_get_def create_championship_embed_def create_finished_embed_def
  format_championship_url_def convert_timestamp_to_datetime_def bind_def


text \<open>
  C2. The claim asks that the cycle edit the stored message of a finished tournament and
  remove its identifier. With a standings payload that is a JSON object wrapping the
  teams in \<^verbatim>\<open>items\<close>, the loop on line 262 visits the object's keys and
  \<^verbatim>\<open>team.get\<close> on a string raises: the final embed is not rendered, the handler on
  line 328 prints the error, nothing is edited and the identifier stays in the store,
  in this cycle and in the next.
\<close>

theorem object_standings_block_finalisation:
  "create_finished_embed (example_championship ''finished'') example_standings
     = Inl AttributeError
   \<and> cycle_events
       (with_standings example_standings
          (example_env [example_championship ''finished''] None None (Inr 8)))
       example_sync_state
     = [Printed (Unexpected_update_error AttributeError)]
   \<and> announced_tournaments
       (check_championships
          (with_standings example_standings
             (example_env [example_championship ''finished''] None None (Inr 8)))
          example_sync_state) ''t1'' = Some (Some 7)
   \<and> cycle_events
       (with_standings example_standings
          (example_env [example_championship ''finished''] None None (Inr 8)))
       (check_championships
          (with_standings example_standings
             (example_env [example_championship ''finished''] None None (Inr 8)))
          example_sync_state)
     = [Printed (Unexpected_update_error AttributeError)]"
  by (simp add: example_defs)

lemma py_str_method_raises: "py_str_method x = Inl e \<Longrightarrow> e = AttributeError"
  by (cases x) auto

lemma py_get_raises: "py_get x key dflt = Inl e \<Longrightarrow> e = AttributeError"
  by (cases x) auto

text \<open>Every non-empty JSON object fails so; a payload that is itself the list of team
  objects is rendered, and the cycle then edits the message and removes the identifier.\<close>

lemma standings_object_raises:
  "kvs \<noteq> [] \<Longrightarrow> create_finished_embed c (JDict kvs) = Inl AttributeError"
  by (cases kvs)
     (auto simp: create_finished_embed_def bind_def format_championship_url_def
           split: sum.splits dest: py_str_method_raises py_get_raises)

lemma list_standings_finalise:
  "cycle_events
     (with_standings (JList [JDict [(''leaderboard_name'', JStr ''team''), (''points'', JNum 3)]])
        (example_env [example_championship ''finished''] None None (Inr 8)))
     example_sync_state
   = [Edited ''t1'' (Some 7)
        (Finished_embed (example_championship ''finished'')
           (Leaderboard [(1, JStr ''team'', JNum 3)])),
      Printed (Updated_to_finished ''t1'')]
   \<and> announced_tournaments
       (check_championships
          (with_standings
             (JList [JDict [(''leaderboard_name'', JStr ''team''), (''points'', JNum 3)]])
             (example_env [example_championship ''finished''] None None (Inr 8)))
          example_sync_state) ''t1'' = None"
  by (simp add: example_defs)

subsection \<open>The stats command\<close>

text \<open>
  C3. The claim asks for the win glyph exactly when the winning faction is the player's
  own. The program compares the winner with faction1 whichever side the player is on: in
  a match won by faction2, for which the player p2 plays, the glyph is the loss glyph
  (and the stats command shows it to p2).
\<close>

theorem glyph_compares_faction1_only:
  "match_glyph example_match = Inr (Some Loss_glyph)
   \<and> own_faction_id (JStr ''p2'') example_match = Some (JStr ''f2'')
   \<and> py_get example_match ''results'' JNull = Inr (JDict [(''winner_id'', JStr ''f2'')])
   \<and> map_sum id (map_option recent_matches) (render_stats ''p2''
         (JDict [(''player_id'', JStr ''p2''), (''faceit_url'', JStr ''u'')])
         (JDict [(''lifetime'', JDict [(''Wins'', JNum 5), (''Matches'', JNum 20)])])
         (JDict [(''items'', JList [example_match])]))
       = Inr (Some [Loss_glyph])"
  by (simp add: match_glyph_def example_match_def bind_def own_faction_id_def lists_player_def
      render_stats_def calculate_win_rate_def)

text \<open>
  C6. The claim asks that a match without faction data be skipped. A match without
  winner data is skipped, but for a match without faction data the index \<^verbatim>\<open>[0]\<close> on
  line 390 is applied to the default empty list and raises \<^verbatim>\<open>IndexError\<close>: the loop
  stops, the remaining matches are not processed and the command ends without an answer.
\<close>

theorem match_without_teams_raises:
  "match_glyph match_without_teams = Inl IndexError
   \<and> recent_result_icons [match_without_teams, example_match] = Inl IndexError
   \<and> match_glyph match_without_winner = Inr None
   \<and> snd (stats (network_with_history [match_without_teams, example_match]) fresh_world 1
              ''player'') = Inl IndexError"
  by (simp add: match_glyph_def example_match_def bind_def match_without_teams_def
      match_without_winner_def stats_def network_with_history_def fresh_world_def
      get_player_data_def get_player_stats_def get_match_history_def
      rate_limited_request_def throttle_def ensure_session_def send_request_def Let_def
      RATE_LIMIT_COOLDOWN_def render_stats_def calculate_win_rate_def
      split: prod.splits sum.splits option.splits)











end
